theory Spec2Isabelle
  imports Main "HOL-Library.AList"
begin

section \<open>Strings and big integers of the host language\<close>

text \<open>
  Strings are lists of code units; the model covers code units below 256, where the
  white space of \<^verbatim>\<open>String.prototype.trim\<close> and of the \<^verbatim>\<open>StringToBigInt\<close>
  grammar is TAB, LF, VT, FF, CR, SP and NBSP.
\<close>

datatype exn = SyntaxError | Error string

definition is_ws :: "char \<Rightarrow> bool" where
  "is_ws c = (c \<in> set [CHR 0x09, CHR 0x0A, CHR 0x0B, CHR 0x0C, CHR 0x0D, CHR 0x20, CHR 0xA0])"

definition trim :: "string \<Rightarrow> string" where
  "trim s = rev (dropWhile is_ws (rev (dropWhile is_ws s)))"

text \<open>The value of one digit in radix \<open>r\<close> (decimal digits, then a-f, then A-F).\<close>

definition digit_of :: "nat \<Rightarrow> char \<Rightarrow> nat option" where
  "digit_of r c =
     (let n = (of_char c :: nat);
          v = (if 48 \<le> n \<and> n \<le> 57 then Some (n - 48)
               else if 97 \<le> n \<and> n \<le> 102 then Some (n - 87)
               else if 65 \<le> n \<and> n \<le> 70 then Some (n - 55)
               else None)
      in case v of None \<Rightarrow> None | Some d \<Rightarrow> if d < r then Some d else None)"

fun digits_value :: "nat \<Rightarrow> nat \<Rightarrow> string \<Rightarrow> nat option" where
  "digits_value r acc [] = Some acc"
| "digits_value r acc (c # cs) =
     (case digit_of r c of None \<Rightarrow> None | Some d \<Rightarrow> digits_value r (acc * r + d) cs)"

definition parse_digits :: "nat \<Rightarrow> string \<Rightarrow> nat option" where
  "parse_digits r s = (if s = [] then None else digits_value r 0 s)"

text \<open>\<^verbatim>\<open>SignedInteger\<close>: decimal digits with an optional sign.\<close>

definition signed_decimal :: "string \<Rightarrow> int option" where
  "signed_decimal t =
     (case t of
        [] \<Rightarrow> None
      | c # cs \<Rightarrow>
          if c = CHR ''+'' then map_option int (parse_digits 10 cs)
          else if c = CHR ''-'' then map_option (\<lambda>n. - int n) (parse_digits 10 cs)
          else map_option int (parse_digits 10 t))"

text \<open>
  \<^verbatim>\<open>StringToBigInt\<close>: white space is stripped; the empty string is 0; a literal is a
  signed decimal integer or an unsigned \<^verbatim>\<open>0x\<close>, \<^verbatim>\<open>0o\<close> or \<^verbatim>\<open>0b\<close> literal.
\<close>

definition StringToBigInt :: "string \<Rightarrow> int option" where
  "StringToBigInt s =
     (let t = trim s in
      if t = [] then Some 0
      else case t of
        c0 # c1 # cs \<Rightarrow>
          if c0 = CHR ''0'' \<and> (c1 = CHR ''x'' \<or> c1 = CHR ''X'') then map_option int (parse_digits 16 cs)
          else if c0 = CHR ''0'' \<and> (c1 = CHR ''o'' \<or> c1 = CHR ''O'') then map_option int (parse_digits 8 cs)
          else if c0 = CHR ''0'' \<and> (c1 = CHR ''b'' \<or> c1 = CHR ''B'') then map_option int (parse_digits 2 cs)
          else signed_decimal t
      | _ \<Rightarrow> signed_decimal t)"

text \<open>\<^verbatim>\<open>BigInt(s)\<close> on a string: the parsed integer, or a thrown \<^verbatim>\<open>SyntaxError\<close>.\<close>

definition BigInt :: "string \<Rightarrow> exn + int" where
  "BigInt s = (case StringToBigInt s of None \<Rightarrow> Inl SyntaxError | Some n \<Rightarrow> Inr n)"

text \<open>The decimal text of a number, as a template literal prints an array index.\<close>

definition digit_char :: "nat \<Rightarrow> char" where
  "digit_char d = ''0123456789'' ! d"

fun string_of_nat :: "nat \<Rightarrow> string" where
  "string_of_nat n =
     (if n < 10 then [digit_char n]
      else string_of_nat (n div 10) @ [digit_char (n mod 10)])"

declare string_of_nat.simps [simp del]

section \<open>Actions, plans and policies\<close>

datatype JupiterSwapMode = ExactIn | ExactOut

text \<open>
  \<^verbatim>\<open>AgentAction\<close>: the fields of \<open>TransferSol\<close> are \<^verbatim>\<open>to\<close> and \<^verbatim>\<open>lamports\<close>;
  those of \<open>SwapJupiter\<close> are \<^verbatim>\<open>inputMint\<close>, \<^verbatim>\<open>outputMint\<close>, \<^verbatim>\<open>amount\<close>,
  \<^verbatim>\<open>slippageBps\<close> and \<^verbatim>\<open>swapMode\<close>. An optional field that is absent is \<open>None\<close>.
  The number \<^verbatim>\<open>slippageBps\<close> is taken to be an integer.
\<close>

datatype AgentAction =
    Noop "string option"
  | TransferSol string string
  | SwapJupiter string string string "int option" "JupiterSwapMode option"

record AgentPlan =
  goal :: string
  summary :: "string option"
  actions :: "AgentAction list"

record AgentPolicy =
  allowedRecipients :: "string list option"
  allowAllTransfers :: "bool option"
  maxTransferLamports :: "int option"
  allowedMints :: "string list option"
  allowAllSwaps :: "bool option"
  maxSwapAmount :: "int option"
  maxSlippageBps :: "int option"

record PolicyViolation =
  path :: string
  message :: string

section \<open>The policy engine\<close>

text \<open>\<^verbatim>\<open>!flag\<close> on an optional boolean: true unless the flag is present and true.\<close>

definition falsy :: "bool option \<Rightarrow> bool" where
  "falsy b = (b \<noteq> Some True)"

text \<open>\<^verbatim>\<open>new Set((list ?? []).map(s => s.trim())).has(x.trim())\<close>\<close>

definition allowlisted :: "string list option \<Rightarrow> string \<Rightarrow> bool" where
  "allowlisted l x = (trim x \<in> set (map trim (case l of None \<Rightarrow> [] | Some xs \<Rightarrow> xs)))"

definition exceeds :: "int option \<Rightarrow> int \<Rightarrow> bool" where
  "exceeds cap n = (case cap of None \<Rightarrow> False | Some m \<Rightarrow> n > m)"

definition viol :: "string \<Rightarrow> string \<Rightarrow> string \<Rightarrow> PolicyViolation" where
  "viol p field msg = \<lparr>path = p @ field, message = msg\<rparr>"

fun validateActionPolicy :: "AgentAction \<Rightarrow> AgentPolicy \<Rightarrow> string \<Rightarrow> exn + PolicyViolation list" where
  "validateActionPolicy (Noop r) policy p = Inr []"
| "validateActionPolicy (TransferSol to lamports) policy p =
     (let v1 = (if falsy (allowAllTransfers policy) \<and> \<not> allowlisted (allowedRecipients policy) to
                then [viol p ''.to'' ''Recipient is not allowlisted''] else [])
      in case BigInt lamports of
           Inl e \<Rightarrow> Inl e
         | Inr n \<Rightarrow>
             Inr (v1 @ (if exceeds (maxTransferLamports policy) n
                        then [viol p ''.lamports'' ''Transfer exceeds maxTransferLamports''] else [])))"
| "validateActionPolicy (SwapJupiter inputMint outputMint amount slippageBps swapMode) policy p =
     (let v1 = (if falsy (allowAllSwaps policy) \<and> \<not> allowlisted (allowedMints policy) inputMint
                then [viol p ''.inputMint'' ''inputMint is not allowlisted''] else []);
          v2 = (if falsy (allowAllSwaps policy) \<and> \<not> allowlisted (allowedMints policy) outputMint
                then [viol p ''.outputMint'' ''outputMint is not allowlisted''] else [])
      in case BigInt amount of
           Inl e \<Rightarrow> Inl e
         | Inr n \<Rightarrow>
             Inr (v1 @ v2
                  @ (if exceeds (maxSwapAmount policy) n
                     then [viol p ''.amount'' ''Swap exceeds maxSwapAmount''] else [])
                  @ (case slippageBps of
                       None \<Rightarrow> []
                     | Some s \<Rightarrow>
                         if exceeds (maxSlippageBps policy) s
                         then [viol p ''.slippageBps'' ''slippageBps exceeds maxSlippageBps'']
                         else [])))"

text \<open>The loop of \<^verbatim>\<open>validatePlanPolicy\<close>, from index \<open>i\<close> on.\<close>

fun validate_from :: "nat \<Rightarrow> AgentAction list \<Rightarrow> AgentPolicy \<Rightarrow> exn + PolicyViolation list" where
  "validate_from i [] policy = Inr []"
| "validate_from i (a # as) policy =
     (case validateActionPolicy a policy (''actions['' @ string_of_nat i @ '']'') of
        Inl e \<Rightarrow> Inl e
      | Inr v \<Rightarrow>
          (case validate_from (Suc i) as policy of
             Inl e \<Rightarrow> Inl e
           | Inr vs \<Rightarrow> Inr (v @ vs)))"

definition validatePlanPolicy :: "AgentPlan \<Rightarrow> AgentPolicy \<Rightarrow> exn + PolicyViolation list" where
  "validatePlanPolicy plan policy = validate_from 0 (actions plan) policy"

section \<open>The agent and its collaborators\<close>

text \<open>
  An asynchronous call that may reject is a function of the outside world \<open>'w\<close>: it
  returns the thrown value or the result, and the world after the call.
\<close>

type_synonym ('w, 'a) io = "'w \<Rightarrow> (exn + 'a) \<times> 'w"

text \<open>
  Values of the host language as \<^verbatim>\<open>JSON.parse\<close> builds them. An array carries its
  elements and, after an assignment such as \<^verbatim>\<open>plan.actions = ...\<close>, named properties.
  Numbers are taken to be integers.
\<close>

datatype jsval =
    JNull
  | JBool bool
  | JNum int
  | JStr string
  | JArr "jsval list" "(string \<times> jsval) list"
  | JObj "(string \<times> jsval) list"

text \<open>\<^verbatim>\<open>!(!v || typeof v !== 'object')\<close>: arrays and objects pass, \<^verbatim>\<open>null\<close> does not.\<close>

fun is_object :: "jsval \<Rightarrow> bool" where
  "is_object (JArr xs ps) = True"
| "is_object (JObj ps) = True"
| "is_object v = False"

text \<open>Reading and writing a named property (not an index, not \<^verbatim>\<open>length\<close>).\<close>

fun get_prop :: "jsval \<Rightarrow> string \<Rightarrow> jsval option" where
  "get_prop (JArr xs ps) k = map_of ps k"
| "get_prop (JObj ps) k = map_of ps k"
| "get_prop v k = None"

fun set_prop :: "jsval \<Rightarrow> string \<Rightarrow> jsval \<Rightarrow> jsval" where
  "set_prop (JArr xs ps) k x = JArr xs (AList.update k x ps)"
| "set_prop (JObj ps) k x = JObj (AList.update k x ps)"
| "set_prop v k x = v"

text \<open>\<^verbatim>\<open>Array.isArray(v) ? v : [{ type: 'noop' }]\<close>, as the list of elements.\<close>

definition noop_json :: jsval where
  "noop_json = JObj [(''type'', JStr ''noop'')]"

fun array_or_noop :: "jsval option \<Rightarrow> jsval list" where
  "array_or_noop (Some (JArr xs ps)) = xs"
| "array_or_noop v = [noop_json]"

text \<open>\<^verbatim>\<open>xs.slice(0, e)\<close> for an integer \<open>e\<close>: a negative end counts from the back.\<close>

definition slice0 :: "'a list \<Rightarrow> int \<Rightarrow> 'a list" where
  "slice0 xs e =
     (let len = int (length xs);
          final = (if e < 0 then max (len + e) 0 else min e len)
      in take (nat final) xs)"

record JupiterQuoteParams =
  inputMint :: string
  outputMint :: string
  amount :: string
  slippageBps :: "int option"
  swapMode :: "JupiterSwapMode option"

text \<open>
  The outside: the key parser of the ledger library, the submission of a transfer, the
  quote and the swap of the aggregator. The connection, the signer and the aggregator
  options are part of these functions.
\<close>

record ('w, 'k, 'q) Collaborators =
  newPublicKey :: "string \<Rightarrow> exn + 'k"
  sendTransfer :: "'k \<Rightarrow> int \<Rightarrow> ('w, string) io"
  getJupiterQuote :: "JupiterQuoteParams \<Rightarrow> ('w, 'q) io"
  executeJupiterSwap :: "'q \<Rightarrow> ('w, string) io"

text \<open>
  \<^verbatim>\<open>ClaudeAgentOptions\<close>. The inference client is seen through \<^verbatim>\<open>createJson\<close>
  as a function of what the prompt is built from: goal, context and \<^verbatim>\<open>maxActions\<close>.
\<close>

record 'w ClaudeAgent =
  anthropic :: "(string \<Rightarrow> jsval option \<Rightarrow> int \<Rightarrow> ('w, jsval) io) option"
  policy :: "AgentPolicy option"
  confirm :: "(AgentAction \<Rightarrow> ('w, bool) io) option"

section \<open>The plan source\<close>

definition noop_plan :: "string \<Rightarrow> string \<Rightarrow> jsval" where
  "noop_plan g s =
     JObj [(''goal'', JStr g), (''summary'', JStr s), (''actions'', JArr [noop_json] [])]"

definition normalize :: "string \<Rightarrow> int \<Rightarrow> jsval \<Rightarrow> jsval" where
  "normalize g maxActions plan =
     (if \<not> is_object plan then noop_plan g ''Invalid plan''
      else set_prop plan ''actions''
             (JArr (slice0 (array_or_noop (get_prop plan ''actions'')) maxActions) []))"

definition proposePlan ::
  "'w ClaudeAgent \<Rightarrow> string \<Rightarrow> jsval option \<Rightarrow> int option \<Rightarrow> ('w, jsval) io" where
  "proposePlan ag g ctx maxActionsOpt w =
     (case anthropic ag of
        None \<Rightarrow> (Inr (noop_plan g ''No Anthropic client configured''), w)
      | Some createJson \<Rightarrow>
          (let maxActions = (case maxActionsOpt of None \<Rightarrow> 3 | Some m \<Rightarrow> m)
           in case createJson g ctx maxActions w of
                (Inl e, w') \<Rightarrow> (Inl e, w')
              | (Inr plan, w') \<Rightarrow> (Inr (normalize g maxActions plan), w')))"

section \<open>The execution coordinator\<close>

definition validate :: "'w ClaudeAgent \<Rightarrow> AgentPlan \<Rightarrow> exn + PolicyViolation list" where
  "validate ag plan =
     (case policy ag of None \<Rightarrow> Inr [] | Some p \<Rightarrow> validatePlanPolicy plan p)"

definition MAX_SAFE_INTEGER :: int where
  "MAX_SAFE_INTEGER = 9007199254740991"

definition transferSol :: "('w, 'k, 'q) Collaborators \<Rightarrow> 'k \<Rightarrow> int \<Rightarrow> ('w, string) io" where
  "transferSol C to lamports w =
     (if lamports > MAX_SAFE_INTEGER
      then (Inl (Error (''lamports is too large for a JS number (max safe: 9007199254740991). ''
                        @ ''Split into multiple transfers or use a different builder.'')), w)
      else sendTransfer C to lamports w)"

text \<open>
  The calls that \<^verbatim>\<open>execute\<close> makes and that can throw (the confirmation, the key
  parser, \<^verbatim>\<open>BigInt\<close>, the transfer, the quote, the swap), each with what it gave
  back (the thrown value or the result), recorded beside the run: the trace is not part
  of what the caller receives.
\<close>

datatype ('k, 'q) call =
    CallConfirm AgentAction "exn + bool"
  | CallPublicKey string "exn + 'k"
  | CallBigInt string "exn + int"
  | CallTransfer 'k int "exn + string"
  | CallQuote JupiterQuoteParams "exn + 'q"
  | CallSwap 'q "exn + string"

text \<open>\<^verbatim>\<open>await Promise.resolve(this.confirm?.(action) ?? true)\<close>\<close>

definition run_confirm :: "'w ClaudeAgent \<Rightarrow> AgentAction \<Rightarrow> ('w, bool) io" where
  "run_confirm ag a w = (case confirm ag of None \<Rightarrow> (Inr True, w) | Some f \<Rightarrow> f a w)"

definition confirm_calls :: "'w ClaudeAgent \<Rightarrow> AgentAction \<Rightarrow> 'w \<Rightarrow> ('k, 'q) call list" where
  "confirm_calls ag a w =
     (case confirm ag of None \<Rightarrow> [] | Some f \<Rightarrow> [CallConfirm a (fst (f a w))])"

text \<open>
  What one action does once it is confirmed: a thrown value, or the signature pushed.
  The arguments of \<^verbatim>\<open>transferSol\<close> are evaluated from left to right, the key before
  the amount. The closing \<^verbatim>\<open>throw\<close> for an unsupported action has no case: the three
  constructors are all the actions there are.
\<close>

fun dispatch ::
  "('w, 'k, 'q) Collaborators \<Rightarrow> AgentAction \<Rightarrow> 'w
     \<Rightarrow> ('k, 'q) call list \<times> (exn + string option) \<times> 'w" where
  "dispatch C (Noop r) w = ([], Inr None, w)"
| "dispatch C (TransferSol to lamports) w =
     (case newPublicKey C to of
        Inl e \<Rightarrow> ([CallPublicKey to (Inl e)], Inl e, w)
      | Inr k \<Rightarrow>
          (case BigInt lamports of
             Inl e \<Rightarrow> ([CallPublicKey to (Inr k), CallBigInt lamports (Inl e)], Inl e, w)
           | Inr n \<Rightarrow>
               (case transferSol C k n w of
                  (Inl e, w') \<Rightarrow>
                    ([CallPublicKey to (Inr k), CallBigInt lamports (Inr n),
                      CallTransfer k n (Inl e)], Inl e, w')
                | (Inr sig, w') \<Rightarrow>
                    ([CallPublicKey to (Inr k), CallBigInt lamports (Inr n),
                      CallTransfer k n (Inr sig)], Inr (Some sig), w'))))"
| "dispatch C (SwapJupiter im om amt sl sm) w =
     (let params = \<lparr>inputMint = im, outputMint = om, amount = amt,
                     slippageBps = Some (case sl of None \<Rightarrow> 50 | Some s \<Rightarrow> s),
                     swapMode = sm\<rparr>
      in case getJupiterQuote C params w of
           (Inl e, w') \<Rightarrow> ([CallQuote params (Inl e)], Inl e, w')
         | (Inr quote, w') \<Rightarrow>
             (case executeJupiterSwap C quote w' of
                (Inl e, w'') \<Rightarrow>
                  ([CallQuote params (Inr quote), CallSwap quote (Inl e)], Inl e, w'')
              | (Inr sig, w'') \<Rightarrow>
                  ([CallQuote params (Inr quote), CallSwap quote (Inr sig)], Inr (Some sig), w'')))"

text \<open>The body of the loop for one action.\<close>

definition exec_action ::
  "('w, 'k, 'q) Collaborators \<Rightarrow> 'w ClaudeAgent \<Rightarrow> AgentAction \<Rightarrow> 'w
     \<Rightarrow> ('k, 'q) call list \<times> (exn + string option) \<times> 'w" where
  "exec_action C ag a w =
     (let ev = confirm_calls ag a w
      in case run_confirm ag a w of
           (Inl e, w') \<Rightarrow> (ev, Inl e, w')
         | (Inr ok, w') \<Rightarrow>
             if \<not> ok then (ev, Inr None, w')
             else (case dispatch C a w' of (ev', r, w'') \<Rightarrow> (ev @ ev', r, w'')))"

text \<open>
  How a run ends. The caller receives the signatures of \<open>Completed\<close>, or the thrown
  value of \<open>Rejected\<close> (before the loop) and \<open>Failed\<close> (inside it); the index and the
  signatures of \<open>Failed\<close> are the loop's local state when it was left.
\<close>

datatype outcome =
    Completed "string list"
  | Rejected exn
  | Failed nat exn "string list"

fun push :: "string list \<Rightarrow> string option \<Rightarrow> string list" where
  "push sigs None = sigs"
| "push sigs (Some sig) = sigs @ [sig]"

fun exec_loop ::
  "('w, 'k, 'q) Collaborators \<Rightarrow> 'w ClaudeAgent \<Rightarrow> nat \<Rightarrow> AgentAction list \<Rightarrow> 'w \<Rightarrow> string list
     \<Rightarrow> (nat \<times> ('k, 'q) call) list \<times> outcome \<times> 'w" where
  "exec_loop C ag i [] w sigs = ([], Completed sigs, w)"
| "exec_loop C ag i (a # as) w sigs =
     (case exec_action C ag a w of
        (ev, Inl e, w') \<Rightarrow> (map (Pair i) ev, Failed i e sigs, w')
      | (ev, Inr s, w') \<Rightarrow>
          (case exec_loop C ag (Suc i) as w' (push sigs s) of
             (tr, out, w'') \<Rightarrow> (map (Pair i) ev @ tr, out, w'')))"

fun join :: "string \<Rightarrow> string list \<Rightarrow> string" where
  "join sep [] = []"
| "join sep [x] = x"
| "join sep (x # y # ys) = x @ sep @ join sep (y # ys)"

definition policy_error :: "PolicyViolation list \<Rightarrow> exn" where
  "policy_error vs =
     Error (''Plan violates policy: '' @ join ''; '' (map (\<lambda>x. path x @ '': '' @ message x) vs))"

definition execute_run ::
  "('w, 'k, 'q) Collaborators \<Rightarrow> 'w ClaudeAgent \<Rightarrow> AgentPlan \<Rightarrow> 'w
     \<Rightarrow> (nat \<times> ('k, 'q) call) list \<times> outcome \<times> 'w" where
  "execute_run C ag plan w =
     (case validate ag plan of
        Inl e \<Rightarrow> ([], Rejected e, w)
      | Inr vs \<Rightarrow>
          if vs \<noteq> [] then ([], Rejected (policy_error vs), w)
          else exec_loop C ag 0 (actions plan) w [])"

text \<open>What \<^verbatim>\<open>execute\<close> gives its caller: the signatures, or the thrown value alone.\<close>

fun returned :: "outcome \<Rightarrow> exn + string list" where
  "returned (Completed sigs) = Inr sigs"
| "returned (Rejected e) = Inl e"
| "returned (Failed i e sigs) = Inl e"

definition execute ::
  "('w, 'k, 'q) Collaborators \<Rightarrow> 'w ClaudeAgent \<Rightarrow> AgentPlan \<Rightarrow> 'w \<Rightarrow> exn + string list" where
  "execute C ag plan w = returned (fst (snd (execute_run C ag plan w)))"


section \<open>Vocabulary of the statements\<close>

text \<open>The amount string of an action, and whether \<^verbatim>\<open>BigInt\<close> accepts it.\<close>

fun amount_of :: "AgentAction \<Rightarrow> string option" where
  "amount_of (Noop r) = None"
| "amount_of (TransferSol to lamports) = Some lamports"
| "amount_of (SwapJupiter im om amt sl sm) = Some amt"

definition amount_parses :: "AgentAction \<Rightarrow> bool" where
  "amount_parses a = (case amount_of a of None \<Rightarrow> True | Some s \<Rightarrow> StringToBigInt s \<noteq> None)"



text \<open>The policy \<^verbatim>\<open>{}\<close>: every option absent.\<close>

definition empty_policy :: AgentPolicy where
  "empty_policy =
     \<lparr>allowedRecipients = None, allowAllTransfers = None, maxTransferLamports = None,
      allowedMints = None, allowAllSwaps = None, maxSwapAmount = None, maxSlippageBps = None\<rparr>"

subsection \<open>Sample inputs for the closed instances\<close>

text \<open>
  An address that the key parser of the ledger library accepts (base 58, 32 bytes), and
  the mints of four tokens.
\<close>

abbreviation recipient :: string where
  "recipient \<equiv> ''4wBqpZM9xaSheZzJSMawUKKwhdpChKbZ5eu5ky4Vigw''"

abbreviation sol_mint :: string where
  "sol_mint \<equiv> ''So11111111111111111111111111111111111111112''"

abbreviation usdc_mint :: string where
  "usdc_mint \<equiv> ''EPjFWdd5AufqSSqeM2qN1xzybapC8G4wEGGkZwyTDt1v''"

abbreviation usdt_mint :: string where
  "usdt_mint \<equiv> ''Es9vMFrzaCERmJfrF4H2FYD4KCoNkY11McCe8BenwNYB''"

abbreviation bonk_mint :: string where
  "bonk_mint \<equiv> ''DezXAZ8z7PnrnRJjz3wXBoRgixCa6xjnB7YaB1pPB263''"

definition sample_policy :: AgentPolicy where
  "sample_policy =
     \<lparr>allowedRecipients = Some [recipient @ '' ''], allowAllTransfers = None,
      maxTransferLamports = Some 100,
      allowedMints = Some [sol_mint, usdc_mint], allowAllSwaps = Some False,
      maxSwapAmount = Some 1000, maxSlippageBps = Some 10\<rparr>"

text \<open>
  The key parser on strings, as the ledger library has it: the text is decoded from
  base 58 (every leading \<^verbatim>\<open>1\<close> is a zero byte, the rest is a number in big-endian
  bytes), a character outside the alphabet is refused, and so is a key that is not 32
  bytes long.
\<close>

definition base58_alphabet :: string where
  "base58_alphabet = ''123456789ABCDEFGHJKLMNPQRSTUVWXYZabcdefghijkmnopqrstuvwxyz''"

fun index_from :: "nat \<Rightarrow> char \<Rightarrow> string \<Rightarrow> nat option" where
  "index_from i c [] = None"
| "index_from i c (x # xs) = (if c = x then Some i else index_from (i + 1) c xs)"

fun base58_value :: "nat \<Rightarrow> string \<Rightarrow> nat option" where
  "base58_value acc [] = Some acc"
| "base58_value acc (c # cs) =
     (case index_from 0 c base58_alphabet of
        None \<Rightarrow> None
      | Some d \<Rightarrow> base58_value (acc * 58 + d) cs)"

fun byte_count :: "nat \<Rightarrow> nat" where
  "byte_count n = (if n = 0 then 0 else Suc (byte_count (n div 256)))"

declare byte_count.simps [simp del]

definition sample_public_key :: "string \<Rightarrow> exn + string" where
  "sample_public_key s =
     (case base58_value 0 s of
        None \<Rightarrow> Inl (Error ''Non-base58 character'')
      | Some v \<Rightarrow>
          if length (takeWhile (\<lambda>c. c = CHR ''1'') s) + byte_count v = 32 then Inr s
          else Inl (Error ''Invalid public key input''))"

text \<open>
  A ledger whose world is the number of submitted transactions, and an aggregator whose
  swap is refused when the input mint is \<open>usdt_mint\<close>.
\<close>

definition sample_collaborators :: "(nat, string, string) Collaborators" where
  "sample_collaborators =
     \<lparr>newPublicKey = sample_public_key,
      sendTransfer = (\<lambda>k n w. (Inr (''sig'' @ string_of_nat w), Suc w)),
      getJupiterQuote = (\<lambda>q w. (Inr (inputMint q), w)),
      executeJupiterSwap =
        (\<lambda>q w. if q = usdt_mint then (Inl (Error ''swap failed''), w)
                else (Inr (''sig'' @ string_of_nat w), Suc w))\<rparr>"

definition decline_swaps :: "AgentAction \<Rightarrow> (nat, bool) io" where
  "decline_swaps a w =
     (Inr (case a of SwapJupiter im om amt sl sm \<Rightarrow> False | _ \<Rightarrow> True), w)"

definition sample_inference :: "string \<Rightarrow> jsval option \<Rightarrow> int \<Rightarrow> (nat, jsval) io" where
  "sample_inference g ctx m w =
     (Inr (if g = ''text'' then JStr ''no plan''
           else if g = ''array'' then JArr [JNum 1] []
           else if g = ''loose'' then JObj [(''goal'', JStr g), (''actions'', JStr ''none'')]
           else JObj [(''goal'', JStr g),
                      (''actions'', JArr [JNum 1, JNum 2, JNum 3, JNum 4, JNum 5] [])]), w)"

definition open_agent :: "nat ClaudeAgent" where
  "open_agent = \<lparr>anthropic = Some sample_inference, policy = None, confirm = None\<rparr>"

definition guarded_agent :: "nat ClaudeAgent" where
  "guarded_agent = \<lparr>anthropic = None, policy = Some sample_policy, confirm = Some decline_swaps\<rparr>"

definition failing_plan :: AgentPlan where
  "failing_plan =
     \<lparr>goal = ''pay and swap'', summary = None,
      actions = [TransferSol recipient ''5'', SwapJupiter usdt_mint bonk_mint ''7'' None None,
                 TransferSol recipient ''5'']\<rparr>"


definition allowed_plan :: AgentPlan where
  "allowed_plan =
     \<lparr>goal = ''pay and swap'', summary = None,
      actions = [TransferSol recipient ''100'', SwapJupiter sol_mint usdc_mint ''7'' None None]\<rparr>"


definition bad_amount_plan :: AgentPlan where
  "bad_amount_plan =
     \<lparr>goal = ''pay'', summary = None, actions = [TransferSol recipient ''abc'']\<rparr>"

definition negative_amount_plan :: AgentPlan where
  "negative_amount_plan =
     \<lparr>goal = ''pay'', summary = None,
      actions = [TransferSol recipient ''-5'', SwapJupiter sol_mint usdc_mint ''-5'' None None]\<rparr>"

definition bad_other_amount_plan :: AgentPlan where
  "bad_other_amount_plan =
     \<lparr>goal = ''pay and swap'', summary = None,
      actions = [TransferSol recipient ''5'', SwapJupiter sol_mint usdc_mint ''abc'' None None]\<rparr>"

definition bad_swap_amount_plan :: AgentPlan where
  "bad_swap_amount_plan =
     \<lparr>goal = ''swap'', summary = None,
      actions = [SwapJupiter usdt_mint bonk_mint ''abc'' None None]\<rparr>"

section \<open>Decimal amounts\<close>

text \<open>The decimal text of a natural number is accepted by \<^verbatim>\<open>BigInt\<close> with that value.\<close>

lemma digits_value_append:
  "digits_value r acc (xs @ ys)
     = (case digits_value r acc xs of None \<Rightarrow> None | Some v \<Rightarrow> digits_value r v ys)"
  by (induction xs arbitrary: acc) (auto split: option.splits)

lemma digit_cases: "d < 10 \<Longrightarrow> d \<in> {0, 1, 2, 3, 4, 5, 6, 7, 8, 9}" for d :: nat
  by auto

lemma digit_of_digit_char: "d < 10 \<Longrightarrow> digit_of 10 (digit_char d) = Some d"
  by (drule digit_cases) (auto simp: digit_of_def digit_char_def)

lemma digit_char_not_ws: "d < 10 \<Longrightarrow> \<not> is_ws (digit_char d)"
  by (drule digit_cases) (auto simp: digit_char_def is_ws_def)

lemma digit_char_not_sign:
  "d < 10 \<Longrightarrow> digit_char d \<noteq> CHR ''+'' \<and> digit_char d \<noteq> CHR ''-''"
  by (drule digit_cases) (auto simp: digit_char_def)

lemma digit_char_not_radix:
  "d < 10 \<Longrightarrow> digit_char d \<noteq> CHR ''x'' \<and> digit_char d \<noteq> CHR ''X''
     \<and> digit_char d \<noteq> CHR ''o'' \<and> digit_char d \<noteq> CHR ''O''
     \<and> digit_char d \<noteq> CHR ''b'' \<and> digit_char d \<noteq> CHR ''B''"
  by (drule digit_cases) (auto simp: digit_char_def)

lemma digits_value_string_of_nat: "digits_value 10 0 (string_of_nat n) = Some n"
proof (induction n rule: string_of_nat.induct)
  case (1 n)
  show ?case
  proof (cases "n < 10")
    case True
    then show ?thesis
      by (subst string_of_nat.simps) (simp add: digit_of_digit_char)
  next
    case False
    with 1 have ih: "digits_value 10 0 (string_of_nat (n div 10)) = Some (n div 10)" by simp
    have "n mod 10 < 10" by simp
    then have d: "digit_of 10 (digit_char (n mod 10)) = Some (n mod 10)"
      by (rule digit_of_digit_char)
    from False have "string_of_nat n = string_of_nat (n div 10) @ [digit_char (n mod 10)]"
      by (subst string_of_nat.simps) simp
    with ih d show ?thesis by (simp add: digits_value_append)
  qed
qed

lemma string_of_nat_nonempty: "string_of_nat n \<noteq> []"
  by (subst string_of_nat.simps) simp

lemma string_of_nat_set: "set (string_of_nat n) \<subseteq> digit_char ` {..<10}"
proof (induction n rule: string_of_nat.induct)
  case (1 n)
  show ?case
  proof (cases "n < 10")
    case True
    then show ?thesis by (subst string_of_nat.simps) simp
  next
    case False
    have "n mod 10 < 10" by simp
    then have "digit_char (n mod 10) \<in> digit_char ` {..<10}" by blast
    with False 1 show ?thesis by (subst string_of_nat.simps) simp
  qed
qed

lemma string_of_nat_digits:
  "string_of_nat n \<noteq> [] \<and> (\<forall>c \<in> set (string_of_nat n). \<exists>d < 10. c = digit_char d)"
  using string_of_nat_nonempty [of n] string_of_nat_set [of n] by auto

lemma dropWhile_none: "\<forall>c \<in> set s. \<not> P c \<Longrightarrow> dropWhile P s = s"
  by (cases s) auto

lemma trim_plain: "\<forall>c \<in> set s. \<not> is_ws c \<Longrightarrow> trim s = s"
  by (simp add: trim_def dropWhile_none)

lemma signed_decimal_unsigned:
  "c0 \<noteq> CHR ''+'' \<Longrightarrow> c0 \<noteq> CHR ''-'' \<Longrightarrow>
     signed_decimal (c0 # cs) = map_option int (digits_value 10 0 (c0 # cs))"
  unfolding signed_decimal_def parse_digits_def by simp

lemma StringToBigInt_single:
  "trim [c0] = [c0] \<Longrightarrow> StringToBigInt [c0] = signed_decimal [c0]"
  unfolding StringToBigInt_def by simp

lemma StringToBigInt_no_radix:
  "trim (c0 # c1 # cs) = c0 # c1 # cs \<Longrightarrow>
     c1 \<noteq> CHR ''x'' \<Longrightarrow> c1 \<noteq> CHR ''X'' \<Longrightarrow> c1 \<noteq> CHR ''o'' \<Longrightarrow> c1 \<noteq> CHR ''O'' \<Longrightarrow>
     c1 \<noteq> CHR ''b'' \<Longrightarrow> c1 \<noteq> CHR ''B'' \<Longrightarrow>
     StringToBigInt (c0 # c1 # cs) = signed_decimal (c0 # c1 # cs)"
  unfolding StringToBigInt_def by simp

lemma StringToBigInt_digits:
  assumes "s \<noteq> []" and "\<forall>c \<in> set s. \<exists>d < 10. c = digit_char d"
  shows "StringToBigInt s = map_option int (digits_value 10 0 s)"
proof -
  have "\<forall>c \<in> set s. \<not> is_ws c"
  proof
    fix c assume "c \<in> set s"
    with assms(2) obtain d where "d < 10" "c = digit_char d" by blast
    then show "\<not> is_ws c" by (simp add: digit_char_not_ws)
  qed
  then have t: "trim s = s" by (rule trim_plain)
  from assms(1) obtain c0 cs where s: "s = c0 # cs" by (cases s) simp_all
  from s have "c0 \<in> set s" by simp
  with assms(2) obtain d0 where d0: "d0 < 10" "c0 = digit_char d0" by blast
  from digit_char_not_sign [OF d0(1)] d0(2) have c0: "c0 \<noteq> CHR ''+''" "c0 \<noteq> CHR ''-''"
    by simp_all
  have sd: "signed_decimal s = map_option int (digits_value 10 0 s)"
    unfolding s using c0 by (rule signed_decimal_unsigned)
  show ?thesis
  proof (cases cs)
    case Nil
    from t have "StringToBigInt s = signed_decimal s"
      unfolding s Nil by (rule StringToBigInt_single)
    with sd show ?thesis by simp
  next
    case (Cons c1 cs')
    with s have "c1 \<in> set s" by simp
    with assms(2) obtain d1 where d1: "d1 < 10" "c1 = digit_char d1" by blast
    from digit_char_not_radix [OF d1(1)] d1(2)
    have c1: "c1 \<noteq> CHR ''x''" "c1 \<noteq> CHR ''X''" "c1 \<noteq> CHR ''o''" "c1 \<noteq> CHR ''O''"
      "c1 \<noteq> CHR ''b''" "c1 \<noteq> CHR ''B''"
      by simp_all
    from t have "StringToBigInt s = signed_decimal s"
      unfolding s Cons using c1 by (rule StringToBigInt_no_radix)
    with sd show ?thesis by simp
  qed
qed

lemma BigInt_string_of_nat: "BigInt (string_of_nat n) = Inr (int n)"
  using string_of_nat_digits [of n]
  by (simp add: BigInt_def StringToBigInt_digits digits_value_string_of_nat)

section \<open>Properties of the policy engine\<close>

lemma validateActionPolicy_returns:
  "amount_parses a \<Longrightarrow> \<exists>vs. validateActionPolicy a pol p = Inr vs"
  by (cases a) (auto simp: amount_parses_def BigInt_def Let_def split: option.splits)

lemma validateActionPolicy_throws:
  "\<not> amount_parses a \<Longrightarrow> validateActionPolicy a pol p = Inl SyntaxError"
  by (cases a) (auto simp: amount_parses_def BigInt_def Let_def split: option.splits)

lemma validate_from_returns:
  "list_all amount_parses as \<Longrightarrow> \<exists>vs. validate_from i as pol = Inr vs"
proof (induction as arbitrary: i)
  case Nil
  then show ?case by simp
next
  case (Cons a as)
  from Cons.prems have pa: "amount_parses a" and pas: "list_all amount_parses as" by simp_all
  from validateActionPolicy_returns [OF pa] obtain v
    where v: "validateActionPolicy a pol (''actions['' @ string_of_nat i @ '']'') = Inr v" by blast
  from Cons.IH [OF pas] obtain vs where "validate_from (Suc i) as pol = Inr vs" by blast
  with v show ?case by simp
qed

lemma validate_from_throws:
  "\<not> list_all amount_parses as \<Longrightarrow> validate_from i as pol = Inl SyntaxError"
proof (induction as arbitrary: i)
  case Nil
  then show ?case by simp
next
  case (Cons a as)
  show ?case
  proof (cases "amount_parses a")
    case False
    then show ?thesis by (simp add: validateActionPolicy_throws)
  next
    case True
    from validateActionPolicy_returns [OF True] obtain v
      where v: "validateActionPolicy a pol (''actions['' @ string_of_nat i @ '']'') = Inr v" by blast
    from True Cons.prems have "\<not> list_all amount_parses as" by simp
    then have "validate_from (Suc i) as pol = Inl SyntaxError" by (rule Cons.IH)
    with v show ?thesis by simp
  qed
qed

lemma validate_from_nth:
  "validate_from i as pol = Inr vs \<Longrightarrow> j < length as \<Longrightarrow>
     \<exists>v. validateActionPolicy (as ! j) pol (''actions['' @ string_of_nat (i + j) @ '']'') = Inr v
         \<and> set v \<subseteq> set vs"
proof (induction as arbitrary: i j vs)
  case Nil
  then show ?case by simp
next
  case (Cons a as)
  from Cons.prems(1) obtain v vs' where
    v: "validateActionPolicy a pol (''actions['' @ string_of_nat i @ '']'') = Inr v" and
    vs': "validate_from (Suc i) as pol = Inr vs'" and
    vs: "vs = v @ vs'"
    by (auto split: sum.splits)
  show ?case
  proof (cases j)
    case 0
    with v vs show ?thesis by simp
  next
    case (Suc j')
    with Cons.prems(2) have "j' < length as" by simp
    from Cons.IH [OF vs' this] Suc vs show ?thesis by auto
  qed
qed

lemma deny_transfer_action:
  assumes "allowedRecipients pol = None \<or> allowedRecipients pol = Some []"
    and "allowAllTransfers pol \<noteq> Some True"
    and "validateActionPolicy (TransferSol to lamports) pol p = Inr v"
  shows "\<lparr>path = p @ ''.to'', message = ''Recipient is not allowlisted''\<rparr> \<in> set v"
  using assms by (auto simp: falsy_def allowlisted_def viol_def Let_def split: sum.splits)

lemma deny_transfer_plan:
  assumes "allowedRecipients pol = None \<or> allowedRecipients pol = Some []"
    and "allowAllTransfers pol \<noteq> Some True"
    and "i < length (actions plan)"
    and "actions plan ! i = TransferSol to lamports"
    and "validatePlanPolicy plan pol = Inr vs"
  shows "\<lparr>path = ''actions['' @ string_of_nat i @ ''].to'',
          message = ''Recipient is not allowlisted''\<rparr> \<in> set vs"
proof -
  from assms(5) have "validate_from 0 (actions plan) pol = Inr vs"
    by (simp add: validatePlanPolicy_def)
  from validate_from_nth [OF this assms(3)] assms(4) obtain v where
    v: "validateActionPolicy (TransferSol to lamports) pol (''actions['' @ string_of_nat i @ '']'') = Inr v"
    and sub: "set v \<subseteq> set vs" by auto
  from deny_transfer_action [OF assms(1) assms(2) v] sub show ?thesis by auto
qed

lemma string_of_nat_0: "string_of_nat 0 = ''0''"
  by (simp add: string_of_nat.simps digit_char_def)


section \<open>Claims about the policy engine\<close>

text \<open>
  Claim C2, as amended. \<^verbatim>\<open>validatePlanPolicy\<close> returns a list of violations exactly
  when every transfer and swap amount of the plan is a string that \<^verbatim>\<open>BigInt\<close>
  accepts, and throws \<^verbatim>\<open>SyntaxError\<close> exactly when some amount is not. An amount
  that parses, negative or not, enters the result only through the comparison with the
  cap (\<^verbatim>\<open>maxTransferLamports\<close> for a transfer, \<^verbatim>\<open>maxSwapAmount\<close> for a swap): two
  amounts on the same side of the cap give the same result, so a negative amount yields
  no violation for being negative.
\<close>

theorem validatePlanPolicy_returns_iff_amounts_parse:
  "((\<exists>vs. validatePlanPolicy plan pol = Inr vs) = list_all amount_parses (actions plan))
 \<and> ((validatePlanPolicy plan pol = Inl SyntaxError) = (\<not> list_all amount_parses (actions plan)))
 \<and> (BigInt s1 = Inr n1 \<and> BigInt s2 = Inr n2
      \<and> exceeds (maxTransferLamports pol) n1 = exceeds (maxTransferLamports pol) n2
     \<longrightarrow> validateActionPolicy (TransferSol to s1) pol p
         = validateActionPolicy (TransferSol to s2) pol p)
 \<and> (BigInt s1 = Inr n1 \<and> BigInt s2 = Inr n2
      \<and> exceeds (maxSwapAmount pol) n1 = exceeds (maxSwapAmount pol) n2
     \<longrightarrow> validateActionPolicy (SwapJupiter im om s1 sl sm) pol p
         = validateActionPolicy (SwapJupiter im om s2 sl sm) pol p)
 \<and> (n1 < 0 \<and> \<not> exceeds (maxTransferLamports pol) 0 \<longrightarrow> \<not> exceeds (maxTransferLamports pol) n1)
 \<and> (n1 < 0 \<and> \<not> exceeds (maxSwapAmount pol) 0 \<longrightarrow> \<not> exceeds (maxSwapAmount pol) n1)"
proof -
  have "validatePlanPolicy plan pol = Inl SyntaxError" if "\<not> list_all amount_parses (actions plan)"
    using that by (simp add: validatePlanPolicy_def validate_from_throws)
  moreover have "\<exists>vs. validatePlanPolicy plan pol = Inr vs" if "list_all amount_parses (actions plan)"
    using that by (simp add: validatePlanPolicy_def validate_from_returns)
  moreover have "validateActionPolicy (TransferSol to s1) pol p
         = validateActionPolicy (TransferSol to s2) pol p"
    if "BigInt s1 = Inr n1" "BigInt s2 = Inr n2"
      "exceeds (maxTransferLamports pol) n1 = exceeds (maxTransferLamports pol) n2"
    using that by (simp add: Let_def)
  moreover have "validateActionPolicy (SwapJupiter im om s1 sl sm) pol p
         = validateActionPolicy (SwapJupiter im om s2 sl sm) pol p"
    if "BigInt s1 = Inr n1" "BigInt s2 = Inr n2"
      "exceeds (maxSwapAmount pol) n1 = exceeds (maxSwapAmount pol) n2"
    using that by (simp add: Let_def)
  moreover have "\<not> exceeds cap n1" if "n1 < 0" "\<not> exceeds cap 0" for cap
    using that by (auto simp: exceeds_def split: option.splits)
  ultimately show ?thesis by fastforce
qed

text \<open>
  The amended statement at sample inputs: a plan whose amounts parse, a plan with the
  amount \<^verbatim>\<open>abc\<close>, and the amount \<^verbatim>\<open>-5\<close> against the amount \<^verbatim>\<open>7\<close>, for a
  transfer under a cap of 100 and for a swap under a cap of 1000.
\<close>

theorem validatePlanPolicy_returns_iff_amounts_parse_witness:
  "(\<exists>vs. validatePlanPolicy allowed_plan sample_policy = Inr vs)
 \<and> validatePlanPolicy bad_amount_plan sample_policy = Inl SyntaxError
 \<and> BigInt ''-5'' = Inr (- 5) \<and> BigInt ''7'' = Inr 7
 \<and> validateActionPolicy (TransferSol recipient ''-5'') sample_policy ''actions[0]'' = Inr []
 \<and> validateActionPolicy (SwapJupiter sol_mint usdc_mint ''-5'' None None) sample_policy
      ''actions[1]'' = Inr []"
proof -
  have ok: "list_all amount_parses (actions allowed_plan)" by code_simp
  have bad: "\<not> list_all amount_parses (actions bad_amount_plan)" by code_simp
  have neg: "BigInt ''-5'' = Inr (- 5)" by code_simp
  have pos: "BigInt ''7'' = Inr 7" by code_simp
  have capt: "exceeds (maxTransferLamports sample_policy) (- 5)
      = exceeds (maxTransferLamports sample_policy) 7"
    by (simp add: sample_policy_def exceeds_def)
  have caps: "exceeds (maxSwapAmount sample_policy) (- 5)
      = exceeds (maxSwapAmount sample_policy) 7"
    by (simp add: sample_policy_def exceeds_def)
  have t7: "validateActionPolicy (TransferSol recipient ''7'') sample_policy ''actions[0]'' = Inr []"
    by code_simp
  have s7: "validateActionPolicy (SwapJupiter sol_mint usdc_mint ''7'' None None) sample_policy
      ''actions[1]'' = Inr []"
    by code_simp
  from validatePlanPolicy_returns_iff_amounts_parse [of allowed_plan sample_policy] ok
  have a: "\<exists>vs. validatePlanPolicy allowed_plan sample_policy = Inr vs" by blast
  from validatePlanPolicy_returns_iff_amounts_parse [of bad_amount_plan sample_policy] bad
  have b: "validatePlanPolicy bad_amount_plan sample_policy = Inl SyntaxError" by blast
  note inst = validatePlanPolicy_returns_iff_amounts_parse
         [where pol = sample_policy and ?s1.0 = "''-5''" and ?n1.0 = "- 5"
            and ?s2.0 = "''7''" and ?n2.0 = 7]
  from inst [where to = recipient and p = "''actions[0]''"] neg pos capt
  have "validateActionPolicy (TransferSol recipient ''-5'') sample_policy ''actions[0]''
      = validateActionPolicy (TransferSol recipient ''7'') sample_policy ''actions[0]''"
    by blast
  with t7 have c: "validateActionPolicy (TransferSol recipient ''-5'') sample_policy ''actions[0]''
      = Inr []"
    by (simp only:)
  from inst [where im = sol_mint and om = usdc_mint and sl = None and sm = None
               and p = "''actions[1]''"] neg pos caps
  have "validateActionPolicy (SwapJupiter sol_mint usdc_mint ''-5'' None None) sample_policy
      ''actions[1]''
      = validateActionPolicy (SwapJupiter sol_mint usdc_mint ''7'' None None) sample_policy
      ''actions[1]''"
    by blast
  with s7 have d: "validateActionPolicy (SwapJupiter sol_mint usdc_mint ''-5'' None None)
      sample_policy ''actions[1]'' = Inr []"
    by (simp only:)
  from a b neg pos c d show ?thesis by (intro conjI)
qed

text \<open>
  Claim C2 as stated fails: the amount \<^verbatim>\<open>abc\<close> makes \<^verbatim>\<open>validatePlanPolicy\<close> throw
  instead of returning a list, and a plan whose transfer and swap both carry the
  negative amount \<^verbatim>\<open>-5\<close> yields no violation.
\<close>

theorem validatePlanPolicy_amount_counterexample:
  "validatePlanPolicy bad_amount_plan sample_policy = Inl SyntaxError
 \<and> validatePlanPolicy negative_amount_plan sample_policy = Inr []"
  by code_simp

text \<open>
  Claim C4, as amended. Under a policy whose \<^verbatim>\<open>allowedRecipients\<close> is absent or empty
  and whose \<^verbatim>\<open>allowAllTransfers\<close> is absent or false, a plan with a transfer at index
  \<open>i\<close> is never accepted, whatever the recipient and the amount string. When every
  amount of the plan parses, \<^verbatim>\<open>validatePlanPolicy\<close> returns a list, and every list it
  returns holds the recipient violation of action \<open>i\<close>; when some amount of the plan
  does not parse, it throws \<^verbatim>\<open>SyntaxError\<close> and returns no violation.
\<close>

theorem deny_by_default_transfers:
  assumes "allowedRecipients pol = None \<or> allowedRecipients pol = Some []"
    and "allowAllTransfers pol \<noteq> Some True"
    and "i < length (actions plan)"
    and "actions plan ! i = TransferSol to lamports"
  shows "validatePlanPolicy plan pol \<noteq> Inr []
       \<and> (\<forall>vs. validatePlanPolicy plan pol = Inr vs \<longrightarrow>
            \<lparr>path = ''actions['' @ string_of_nat i @ ''].to'',
             message = ''Recipient is not allowlisted''\<rparr> \<in> set vs)
       \<and> (list_all amount_parses (actions plan) \<longrightarrow>
            (\<exists>vs. validatePlanPolicy plan pol = Inr vs))
       \<and> (\<not> list_all amount_parses (actions plan) \<longrightarrow>
            validatePlanPolicy plan pol = Inl SyntaxError)"
proof -
  have member: "\<lparr>path = ''actions['' @ string_of_nat i @ ''].to'',
             message = ''Recipient is not allowlisted''\<rparr> \<in> set vs"
    if "validatePlanPolicy plan pol = Inr vs" for vs
    using assms that by (rule deny_transfer_plan)
  then have "validatePlanPolicy plan pol \<noteq> Inr []" by fastforce
  moreover have "list_all amount_parses (actions plan) \<longrightarrow>
            (\<exists>vs. validatePlanPolicy plan pol = Inr vs)"
    by (simp add: validatePlanPolicy_def validate_from_returns)
  moreover have "\<not> list_all amount_parses (actions plan) \<longrightarrow>
            validatePlanPolicy plan pol = Inl SyntaxError"
    by (simp add: validatePlanPolicy_def validate_from_throws)
  ultimately show ?thesis using member by blast
qed

text \<open>
  The empty policy against a plan whose first action is a transfer of 5, and against
  the plan whose transfer amount is \<^verbatim>\<open>abc\<close>.
\<close>

theorem deny_by_default_transfers_witness:
  "(allowedRecipients empty_policy = None \<or> allowedRecipients empty_policy = Some [])
 \<and> allowAllTransfers empty_policy \<noteq> Some True
 \<and> 0 < length (actions failing_plan)
 \<and> actions failing_plan ! 0 = TransferSol recipient ''5''
 \<and> validatePlanPolicy failing_plan empty_policy \<noteq> Inr []
 \<and> (\<exists>vs. validatePlanPolicy failing_plan empty_policy = Inr vs
        \<and> \<lparr>path = ''actions[0].to'', message = ''Recipient is not allowlisted''\<rparr> \<in> set vs)
 \<and> validatePlanPolicy bad_amount_plan empty_policy \<noteq> Inr []"
proof -
  have h1: "allowedRecipients empty_policy = None \<or> allowedRecipients empty_policy = Some []"
    by (simp add: empty_policy_def)
  have h2: "allowAllTransfers empty_policy \<noteq> Some True"
    by (simp add: empty_policy_def)
  have h3: "0 < length (actions failing_plan)"
    by (simp add: failing_plan_def)
  have h4: "actions failing_plan ! 0 = TransferSol recipient ''5''"
    by (simp add: failing_plan_def)
  have h5: "list_all amount_parses (actions failing_plan)" by code_simp
  have b3: "0 < length (actions bad_amount_plan)"
    by (simp add: bad_amount_plan_def)
  have b4: "actions bad_amount_plan ! 0 = TransferSol recipient ''abc''"
    by (simp add: bad_amount_plan_def)
  from deny_by_default_transfers [OF h1 h2 b3 b4]
  have bad: "validatePlanPolicy bad_amount_plan empty_policy \<noteq> Inr []" by blast
  from deny_by_default_transfers [OF h1 h2 h3 h4] h5 h1 h2 h3 h4 bad show ?thesis
    by (auto simp: string_of_nat_0)
qed

text \<open>
  Claim C4 as stated fails: under the empty policy a transfer with the amount
  \<^verbatim>\<open>abc\<close>, or a transfer beside a swap with that amount, makes
  \<^verbatim>\<open>validatePlanPolicy\<close> throw, so that no violation is produced for the transfer.
\<close>

theorem deny_by_default_transfers_counterexample:
  "validatePlanPolicy bad_amount_plan empty_policy = Inl SyntaxError
 \<and> validatePlanPolicy bad_other_amount_plan empty_policy = Inl SyntaxError"
  by code_simp

text \<open>
  Claim C6, as amended. With \<^verbatim>\<open>allowAllSwaps\<close> absent or false, the violations of a
  swap whose amount parses hold one allowlist violation for the input mint if and only
  if it fails the membership test of the code (equality after \<^verbatim>\<open>trim\<close> with a member
  of \<^verbatim>\<open>allowedMints\<close>), and independently one for the output mint: two when both
  fail, exactly the output one when only the output fails. When the amount does not
  parse, validation throws what \<^verbatim>\<open>BigInt\<close> throws and returns no violation.
\<close>

theorem swap_allowlist_per_side:
  assumes "allowAllSwaps pol \<noteq> Some True"
  shows "(BigInt amt = Inr n \<longrightarrow>
          (\<exists>vs. validateActionPolicy (SwapJupiter im om amt sl sm) pol p = Inr vs
             \<and> filter (\<lambda>v. message v = ''inputMint is not allowlisted''
                          \<or> message v = ''outputMint is not allowlisted'') vs
               = (if allowlisted (allowedMints pol) im then []
                  else [\<lparr>path = p @ ''.inputMint'', message = ''inputMint is not allowlisted''\<rparr>])
               @ (if allowlisted (allowedMints pol) om then []
                  else [\<lparr>path = p @ ''.outputMint'', message = ''outputMint is not allowlisted''\<rparr>])))
       \<and> (BigInt amt = Inl e \<longrightarrow>
            validateActionPolicy (SwapJupiter im om amt sl sm) pol p = Inl e)"
  using assms by (simp add: falsy_def viol_def Let_def split: option.splits)

text \<open>
  A policy that allows the mints of SOL and USDC only: the swaps USDT to BONK and SOL
  to USDT, and the swap USDT to BONK with the amount \<^verbatim>\<open>abc\<close>.
\<close>

theorem swap_allowlist_per_side_witness:
  "allowAllSwaps sample_policy \<noteq> Some True \<and> BigInt ''7'' = Inr 7
 \<and> BigInt ''abc'' = Inl SyntaxError
 \<and> (\<exists>vs. validateActionPolicy (SwapJupiter usdt_mint bonk_mint ''7'' None None) sample_policy ''p''
           = Inr vs
       \<and> filter (\<lambda>v. message v = ''inputMint is not allowlisted''
                    \<or> message v = ''outputMint is not allowlisted'') vs
         = [\<lparr>path = ''p.inputMint'', message = ''inputMint is not allowlisted''\<rparr>,
            \<lparr>path = ''p.outputMint'', message = ''outputMint is not allowlisted''\<rparr>])
 \<and> (\<exists>vs. validateActionPolicy (SwapJupiter sol_mint usdt_mint ''7'' (Some 11) None) sample_policy ''p''
           = Inr vs
       \<and> filter (\<lambda>v. message v = ''inputMint is not allowlisted''
                    \<or> message v = ''outputMint is not allowlisted'') vs
         = [\<lparr>path = ''p.outputMint'', message = ''outputMint is not allowlisted''\<rparr>])
 \<and> validateActionPolicy (SwapJupiter usdt_mint bonk_mint ''abc'' None None) sample_policy ''p''
     = Inl SyntaxError"
proof -
  have h1: "allowAllSwaps sample_policy \<noteq> Some True" by (simp add: sample_policy_def)
  have h2: "BigInt ''7'' = Inr 7" by code_simp
  have h3: "BigInt ''abc'' = Inl SyntaxError" by code_simp
  have a: "allowlisted (allowedMints sample_policy) sol_mint" by code_simp
  have b: "\<not> allowlisted (allowedMints sample_policy) usdt_mint" by code_simp
  have c: "\<not> allowlisted (allowedMints sample_policy) bonk_mint" by code_simp
  note two = swap_allowlist_per_side [OF h1, where amt = "''7''" and n = 7
      and im = usdt_mint and om = bonk_mint and sl = None and sm = None and p = "''p''"]
  note one = swap_allowlist_per_side [OF h1, where amt = "''7''" and n = 7
      and im = sol_mint and om = usdt_mint and sl = "Some 11" and sm = None and p = "''p''"]
  note thrown = swap_allowlist_per_side [OF h1, where amt = "''abc''" and e = SyntaxError
      and im = usdt_mint and om = bonk_mint and sl = None and sm = None and p = "''p''"]
  from two h2 b c have x: "\<exists>vs. validateActionPolicy (SwapJupiter usdt_mint bonk_mint ''7'' None None)
          sample_policy ''p'' = Inr vs
       \<and> filter (\<lambda>v. message v = ''inputMint is not allowlisted''
                    \<or> message v = ''outputMint is not allowlisted'') vs
         = [\<lparr>path = ''p.inputMint'', message = ''inputMint is not allowlisted''\<rparr>,
            \<lparr>path = ''p.outputMint'', message = ''outputMint is not allowlisted''\<rparr>]"
    by simp
  from one h2 a b have y: "\<exists>vs. validateActionPolicy (SwapJupiter sol_mint usdt_mint ''7'' (Some 11) None)
          sample_policy ''p'' = Inr vs
       \<and> filter (\<lambda>v. message v = ''inputMint is not allowlisted''
                    \<or> message v = ''outputMint is not allowlisted'') vs
         = [\<lparr>path = ''p.outputMint'', message = ''outputMint is not allowlisted''\<rparr>]"
    by simp
  from thrown h3 have z: "validateActionPolicy (SwapJupiter usdt_mint bonk_mint ''abc'' None None)
      sample_policy ''p'' = Inl SyntaxError"
    by blast
  from h1 h2 h3 x y z show ?thesis by (intro conjI)
qed

text \<open>
  Claim C6 as stated fails: for the swap USDT to BONK, whose mints are both missing
  from the allowlist, the amount \<^verbatim>\<open>abc\<close> makes validation throw, so that neither of
  the two violations is produced.
\<close>

theorem swap_allowlist_counterexample:
  "allowAllSwaps sample_policy = Some False
 \<and> validateActionPolicy (SwapJupiter usdt_mint bonk_mint ''abc'' None None) sample_policy
      ''actions[0]'' = Inl SyntaxError
 \<and> validatePlanPolicy bad_swap_amount_plan sample_policy = Inl SyntaxError"
  by code_simp

text \<open>
  Claim C7. For a transfer whose recipient is admitted and a policy whose
  \<^verbatim>\<open>maxTransferLamports\<close> is \<open>cap\<close>: an amount string with the value \<open>cap\<close> yields
  no violation, and one with the value \<open>cap + 1\<close> yields the amount violation. For a
  cap that is not negative the decimal texts of \<open>cap\<close> and \<open>cap + 1\<close> are such
  amounts.
\<close>

theorem transfer_amount_boundary:
  assumes "maxTransferLamports pol = Some cap"
    and "allowAllTransfers pol = Some True \<or> allowlisted (allowedRecipients pol) to"
  shows "(BigInt lamports = Inr cap \<longrightarrow>
            validateActionPolicy (TransferSol to lamports) pol p = Inr [])
       \<and> (BigInt lamports = Inr (cap + 1) \<longrightarrow>
            validateActionPolicy (TransferSol to lamports) pol p
              = Inr [\<lparr>path = p @ ''.lamports'', message = ''Transfer exceeds maxTransferLamports''\<rparr>])
       \<and> (0 \<le> cap \<longrightarrow>
            validateActionPolicy (TransferSol to (string_of_nat (nat cap))) pol p = Inr []
          \<and> validateActionPolicy (TransferSol to (string_of_nat (nat cap + 1))) pol p
              = Inr [\<lparr>path = p @ ''.lamports'', message = ''Transfer exceeds maxTransferLamports''\<rparr>])"
proof -
  have at: "validateActionPolicy (TransferSol to s) pol p = Inr []"
    if "BigInt s = Inr cap" for s
    using that assms by (auto simp: falsy_def exceeds_def Let_def)
  have above: "validateActionPolicy (TransferSol to s) pol p
      = Inr [\<lparr>path = p @ ''.lamports'', message = ''Transfer exceeds maxTransferLamports''\<rparr>]"
    if "BigInt s = Inr (cap + 1)" for s
    using that assms by (auto simp: falsy_def viol_def exceeds_def Let_def)
  have dec: "BigInt (string_of_nat (nat cap)) = Inr cap
      \<and> BigInt (string_of_nat (nat cap + 1)) = Inr (cap + 1)" if "0 \<le> cap"
    using that by (simp add: BigInt_string_of_nat)
  from at above dec show ?thesis by blast
qed

text \<open>A cap of 100 against the amounts \<^verbatim>\<open>100\<close> and \<^verbatim>\<open>101\<close>.\<close>

theorem transfer_amount_boundary_witness:
  "maxTransferLamports sample_policy = Some 100
 \<and> allowlisted (allowedRecipients sample_policy) recipient
 \<and> BigInt ''100'' = Inr 100 \<and> BigInt ''101'' = Inr (100 + 1)
 \<and> validateActionPolicy (TransferSol recipient ''100'') sample_policy ''actions[0]'' = Inr []
 \<and> validateActionPolicy (TransferSol recipient ''101'') sample_policy ''actions[0]''
     = Inr [\<lparr>path = ''actions[0].lamports'', message = ''Transfer exceeds maxTransferLamports''\<rparr>]"
proof -
  have h1: "maxTransferLamports sample_policy = Some 100" by (simp add: sample_policy_def)
  have h2: "allowlisted (allowedRecipients sample_policy) recipient" by code_simp
  then have h2': "allowAllTransfers sample_policy = Some True
      \<or> allowlisted (allowedRecipients sample_policy) recipient" ..
  have h3: "BigInt ''100'' = Inr 100" by code_simp
  have h4: "BigInt ''101'' = Inr (100 + 1)" by code_simp
  from transfer_amount_boundary [OF h1 h2', of "''100''" "''actions[0]''"] h3
  have a: "validateActionPolicy (TransferSol recipient ''100'') sample_policy ''actions[0]'' = Inr []"
    by blast
  from transfer_amount_boundary [OF h1 h2', of "''101''" "''actions[0]''"] h4
  have b: "validateActionPolicy (TransferSol recipient ''101'') sample_policy ''actions[0]''
     = Inr [\<lparr>path = ''actions[0].lamports'', message = ''Transfer exceeds maxTransferLamports''\<rparr>]"
    by simp
  from h1 h2 h3 h4 a b show ?thesis by (intro conjI)
qed

section \<open>Properties of the execution loop\<close>


text \<open>The calls of one action: the confirmation, then those of the dispatch.\<close>

lemma confirm_calls_cases:
  "run_confirm ag a w = (r, w1) \<Longrightarrow>
     (confirm_calls ag a w :: ('k, 'q) call list) = [] \<and> r = Inr True
     \<or> (confirm_calls ag a w :: ('k, 'q) call list) = [CallConfirm a r]"
  by (auto simp: run_confirm_def confirm_calls_def split: option.splits)

lemma exec_action_cases:
  assumes "run_confirm ag a w = (r, w1)"
  shows "(\<exists>e. r = Inl e \<and> exec_action C ag a w = (confirm_calls ag a w, Inl e, w1))
       \<or> (r = Inr False \<and> exec_action C ag a w = (confirm_calls ag a w, Inr None, w1))
       \<or> (r = Inr True \<and> exec_action C ag a w
             = (confirm_calls ag a w @ fst (dispatch C a w1), snd (dispatch C a w1)))"
  using assms by (cases r) (auto simp: exec_action_def Let_def split: prod.splits)

lemma dispatch_no_confirm: "CallConfirm a' r \<notin> set (fst (dispatch C a w))"
  by (cases a) (auto simp: Let_def split: sum.splits prod.splits)




text \<open>A declined action makes the confirmation call and no other.\<close>

lemma exec_action_declined:
  fixes C :: "('w, 'k, 'q) Collaborators"
  assumes "CallConfirm a' (Inr False) \<in> set (fst (exec_action C ag a w))"
  shows "a' = a \<and> fst (exec_action C ag a w) = [CallConfirm a (Inr False)]"
proof -
  obtain r w1 where rc: "run_confirm ag a w = (r, w1)"
    by (cases "run_confirm ag a w") auto
  note cc = confirm_calls_cases [OF rc, where 'k = 'k and 'q = 'q]
  from exec_action_cases [OF rc, of C] assms
  have "CallConfirm a' (Inr False) \<in> set (confirm_calls ag a w :: ('k, 'q) call list)"
    by (auto simp: dispatch_no_confirm)
  with cc have r: "a' = a" "r = Inr False"
    and ev: "confirm_calls ag a w = [CallConfirm a (Inr False) :: ('k, 'q) call]"
    by auto
  from exec_action_cases [OF rc, of C] r ev show ?thesis by auto
qed


text \<open>
  The calls that a run records under index \<open>k\<close> are calls of action \<open>k\<close>, all made
  in one pass through the body of the loop.
\<close>

lemma exec_loop_events:
  "exec_loop C ag i as w sigs = (tr, out, w') \<Longrightarrow> (k, c) \<in> set tr \<Longrightarrow>
     i \<le> k \<and> k < i + length as
     \<and> (\<exists>w0. \<forall>c'. (k, c') \<in> set tr \<longrightarrow> c' \<in> set (fst (exec_action C ag (as ! (k - i)) w0)))"
proof (induction as arbitrary: i w sigs tr k c)
  case Nil
  then show ?case by simp
next
  case (Cons a as)
  obtain ev r w1 where step: "exec_action C ag a w = (ev, r, w1)"
    by (cases "exec_action C ag a w") auto
  show ?case
  proof (cases r)
    case (Inl e')
    with step Cons.prems(1) have tr: "tr = map (Pair i) ev" by auto
    with Cons.prems(2) have "k = i" by auto
    moreover from tr step have "\<forall>c'. (i, c') \<in> set tr \<longrightarrow> c' \<in> set (fst (exec_action C ag a w))"
      by auto
    ultimately show ?thesis by auto
  next
    case (Inr sg)
    obtain tr' out' w2 where rest: "exec_loop C ag (Suc i) as w1 (push sigs sg) = (tr', out', w2)"
      by (cases "exec_loop C ag (Suc i) as w1 (push sigs sg)") auto
    with step Inr Cons.prems(1) have tr: "tr = map (Pair i) ev @ tr'" and "out' = out" "w2 = w'"
      by auto
    with rest have rest': "exec_loop C ag (Suc i) as w1 (push sigs sg) = (tr', out, w')" by simp
    have later: "Suc i \<le> k'" if "(k', c') \<in> set tr'" for k' c'
      using Cons.IH [OF rest' that] by simp
    show ?thesis
    proof (cases "k = i")
      case True
      have "c' \<in> set (fst (exec_action C ag a w))" if "(i, c') \<in> set tr" for c'
      proof -
        from that tr have "c' \<in> set ev \<or> (i, c') \<in> set tr'" by auto
        with later [of i c'] step show ?thesis by auto
      qed
      with True show ?thesis by auto
    next
      case False
      with tr Cons.prems(2) have in': "(k, c) \<in> set tr'" by auto
      from Cons.IH [OF rest' in'] obtain w0 where
        ih: "Suc i \<le> k" "k < Suc i + length as"
          "\<forall>c'. (k, c') \<in> set tr' \<longrightarrow> c' \<in> set (fst (exec_action C ag (as ! (k - Suc i)) w0))"
        by auto
      from ih(1) have nth: "(a # as) ! (k - i) = as ! (k - Suc i)" by (simp add: nth_Cons')
      from False tr have "(k, c') \<in> set tr \<longrightarrow> (k, c') \<in> set tr'" for c' by auto
      with ih nth show ?thesis by auto
    qed
  qed
qed


text \<open>The joined text holds each of its parts.\<close>

lemma join_holds_each:
  "x \<in> set xs \<Longrightarrow> \<exists>pre post. join sep xs = pre @ x @ post"
proof (induction sep xs rule: join.induct)
  case (1 sep)
  then show ?case by simp
next
  case (2 sep y)
  then have "join sep [y] = [] @ x @ []" by simp
  then show ?case by blast
next
  case (3 sep y z zs)
  show ?case
  proof (cases "x = y")
    case True
    then have "join sep (y # z # zs) = [] @ x @ (sep @ join sep (z # zs))" by simp
    then show ?thesis by blast
  next
    case False
    with 3 obtain pre post where "join sep (z # zs) = pre @ x @ post" by auto
    then have "join sep (y # z # zs) = (y @ sep @ pre) @ x @ post" by simp
    then show ?thesis by blast
  qed
qed









lemma execute_run_loop:
  "execute_run C ag plan w = (tr, out, w') \<Longrightarrow> (\<forall>e. out \<noteq> Rejected e) \<or> tr \<noteq> [] \<Longrightarrow>
     exec_loop C ag 0 (actions plan) w [] = (tr, out, w')"
  by (auto simp: execute_run_def split: sum.splits if_splits)

text \<open>The sample inputs, evaluated.\<close>

lemma recipient_key: "sample_public_key recipient = Inr recipient"
  by (simp add: sample_public_key_def base58_alphabet_def byte_count.simps)



lemma BigInt_100: "BigInt ''100'' = Inr 100"
  by code_simp







lemma validate_allowed_plan_guarded: "validate guarded_agent allowed_plan = Inr []"
  by code_simp

lemma run_allowed_plan_guarded:
  "execute_run sample_collaborators guarded_agent allowed_plan 0 =
     ([(0, CallConfirm (TransferSol recipient ''100'') (Inr True)),
       (0, CallPublicKey recipient (Inr recipient)),
       (0, CallBigInt ''100'' (Inr 100)),
       (0, CallTransfer recipient 100 (Inr ''sig0'')),
       (1, CallConfirm (SwapJupiter sol_mint usdc_mint ''7'' None None) (Inr False))],
      Completed [''sig0''], 1)"
  using validate_allowed_plan_guarded
  by (simp add: execute_run_def exec_action_def run_confirm_def confirm_calls_def
      sample_collaborators_def transferSol_def MAX_SAFE_INTEGER_def recipient_key
      BigInt_100 string_of_nat_0 Let_def decline_swaps_def guarded_agent_def allowed_plan_def)

section \<open>Claims about the execution coordinator\<close>




text \<open>
  Claim C3. If the validation inside \<^verbatim>\<open>execute\<close> returns at least one violation,
  \<^verbatim>\<open>execute\<close> throws one error whose message holds the path and the message of
  every violation, and nothing was called before: the trace is empty (no confirmation,
  no transfer, no quote, no swap) and the world is unchanged.
\<close>

theorem execute_rejects_atomically:
  assumes "validate ag plan = Inr vs"
    and "vs \<noteq> []"
  shows "execute_run C ag plan w = ([], Rejected (policy_error vs), w)
       \<and> execute C ag plan w = Inl (policy_error vs)
       \<and> (\<forall>v \<in> set vs. \<exists>pre post.
            policy_error vs
              = Error (''Plan violates policy: '' @ pre @ path v @ '': '' @ message v @ post))"
proof -
  have "\<exists>pre post. policy_error vs
      = Error (''Plan violates policy: '' @ pre @ path v @ '': '' @ message v @ post)"
    if "v \<in> set vs" for v
  proof -
    from that have "path v @ '': '' @ message v \<in> set (map (\<lambda>x. path x @ '': '' @ message x) vs)"
      by auto
    from join_holds_each [OF this, of "''; ''"] show ?thesis
      by (auto simp: policy_error_def)
  qed
  with assms show ?thesis by (simp add: execute_run_def execute_def)
qed

text \<open>The sample policy rejects both mints of the swap of the failing plan.\<close>

theorem execute_rejects_atomically_witness:
  "validate guarded_agent failing_plan
     = Inr [\<lparr>path = ''actions[1].inputMint'', message = ''inputMint is not allowlisted''\<rparr>,
            \<lparr>path = ''actions[1].outputMint'', message = ''outputMint is not allowlisted''\<rparr>]
 \<and> execute_run sample_collaborators guarded_agent failing_plan 0
     = ([], Rejected (Error (''Plan violates policy: ''
           @ ''actions[1].inputMint: inputMint is not allowlisted; ''
           @ ''actions[1].outputMint: outputMint is not allowlisted'')), 0)"
proof -
  have v: "validate guarded_agent failing_plan
     = Inr [\<lparr>path = ''actions[1].inputMint'', message = ''inputMint is not allowlisted''\<rparr>,
            \<lparr>path = ''actions[1].outputMint'', message = ''outputMint is not allowlisted''\<rparr>]"
    by code_simp
  have ne: "[\<lparr>path = ''actions[1].inputMint'', message = ''inputMint is not allowlisted''\<rparr>,
            \<lparr>path = ''actions[1].outputMint'', message = ''outputMint is not allowlisted''\<rparr>] \<noteq> []"
    by simp
  from execute_rejects_atomically [OF v ne, of sample_collaborators 0]
  have "execute_run sample_collaborators guarded_agent failing_plan 0
     = ([], Rejected (policy_error
          [\<lparr>path = ''actions[1].inputMint'', message = ''inputMint is not allowlisted''\<rparr>,
           \<lparr>path = ''actions[1].outputMint'', message = ''outputMint is not allowlisted''\<rparr>]), 0)"
    by (rule conjunct1)
  with v show ?thesis by (simp add: policy_error_def)
qed





text \<open>
  Claim C9. If the confirmation capability answers false for an action, the only call
  made for that action is the confirmation itself, no signature is pushed, and the loop
  goes on with the next action; in the trace of a whole run, an index whose confirmation
  was answered false has no other call. Without a confirmation capability every action
  counts as confirmed: it is dispatched at once.
\<close>

theorem confirmation_gating:
  "(confirm ag = Some f \<and> f a w = (Inr False, w1) \<longrightarrow>
      exec_action C ag a w = ([CallConfirm a (Inr False)], Inr None, w1)
      \<and> exec_loop C ag i (a # as) w sigs
          = (case exec_loop C ag (Suc i) as w1 sigs of
               (tr, r) \<Rightarrow> ((i, CallConfirm a (Inr False)) # tr, r)))
 \<and> (execute_run C ag plan w = (tr, out, w') \<and> (k, CallConfirm a (Inr False)) \<in> set tr \<longrightarrow>
      a = actions plan ! k \<and> (\<forall>c. (k, c) \<in> set tr \<longrightarrow> c = CallConfirm a (Inr False)))
 \<and> (confirm ag = None \<longrightarrow>
      run_confirm ag a w = (Inr True, w)
      \<and> exec_action C ag a w = dispatch C a w)"
proof -
  have step: "exec_action C ag a w = ([CallConfirm a (Inr False)], Inr None, w1)
      \<and> exec_loop C ag i (a # as) w sigs
          = (case exec_loop C ag (Suc i) as w1 sigs of
               (tr, r) \<Rightarrow> ((i, CallConfirm a (Inr False)) # tr, r))"
    if "confirm ag = Some f" "f a w = (Inr False, w1)"
    using that
    by (auto simp: exec_action_def run_confirm_def confirm_calls_def split: prod.splits)
  have run: "a = actions plan ! k \<and> (\<forall>c. (k, c) \<in> set tr \<longrightarrow> c = CallConfirm a (Inr False))"
    if r: "execute_run C ag plan w = (tr, out, w')"
      and k: "(k, CallConfirm a (Inr False)) \<in> set tr"
  proof -
    from k have "tr \<noteq> []" by auto
    with r have loop: "exec_loop C ag 0 (actions plan) w [] = (tr, out, w')"
      by (simp add: execute_run_loop)
    from exec_loop_events [OF loop k] obtain w0 where
      all: "\<forall>c'. (k, c') \<in> set tr \<longrightarrow> c' \<in> set (fst (exec_action C ag (actions plan ! k) w0))"
      by auto
    with k have "CallConfirm a (Inr False) \<in> set (fst (exec_action C ag (actions plan ! k) w0))"
      by blast
    from exec_action_declined [OF this] all show ?thesis by auto
  qed
  have none: "run_confirm ag a w = (Inr True, w) \<and> exec_action C ag a w = dispatch C a w"
    if "confirm ag = None"
    using that
    by (auto simp: exec_action_def run_confirm_def confirm_calls_def split: prod.splits)
  from step run none show ?thesis by blast
qed

text \<open>
  An agent that declines swaps, on the allowed plan, which passes its policy: the
  transfer is made, the swap is only asked about. An agent without the capability
  dispatches the swap.
\<close>

theorem confirmation_gating_witness:
  "confirm guarded_agent = Some decline_swaps
 \<and> decline_swaps (SwapJupiter sol_mint usdc_mint ''7'' None None) 1 = (Inr False, 1)
 \<and> confirm open_agent = None
 \<and> exec_action sample_collaborators guarded_agent (SwapJupiter sol_mint usdc_mint ''7'' None None) 1
     = ([CallConfirm (SwapJupiter sol_mint usdc_mint ''7'' None None) (Inr False)], Inr None, 1)
 \<and> exec_loop sample_collaborators guarded_agent 1 [SwapJupiter sol_mint usdc_mint ''7'' None None] 1 [''sig0'']
     = ([(1, CallConfirm (SwapJupiter sol_mint usdc_mint ''7'' None None) (Inr False))],
        Completed [''sig0''], 1)
 \<and> execute sample_collaborators guarded_agent allowed_plan 0 = Inr [''sig0'']
 \<and> SwapJupiter sol_mint usdc_mint ''7'' None None = actions allowed_plan ! 1
 \<and> exec_action sample_collaborators open_agent (SwapJupiter sol_mint usdc_mint ''7'' None None) 1
     = dispatch sample_collaborators (SwapJupiter sol_mint usdc_mint ''7'' None None) 1"
proof -
  have h1: "confirm guarded_agent = Some decline_swaps" by (simp add: guarded_agent_def)
  have h2: "decline_swaps (SwapJupiter sol_mint usdc_mint ''7'' None None) 1 = (Inr False, 1)"
    by (simp add: decline_swaps_def)
  have h3: "confirm open_agent = None" by (simp add: open_agent_def)
  have h4: "(1, CallConfirm (SwapJupiter sol_mint usdc_mint ''7'' None None) (Inr False))
      \<in> set (fst (execute_run sample_collaborators guarded_agent allowed_plan 0))"
    by (simp add: run_allowed_plan_guarded)
  have h5: "execute sample_collaborators guarded_agent allowed_plan 0 = Inr [''sig0'']"
    by (simp add: execute_def run_allowed_plan_guarded)
  note declined = confirmation_gating
         [where ag = guarded_agent and f = decline_swaps
            and a = "SwapJupiter sol_mint usdc_mint ''7'' None None" and w = 1 and ?w1.0 = 1
            and C = sample_collaborators and i = 1 and as = "[]" and sigs = "[''sig0'']"]
  note whole = confirmation_gating
         [where ag = guarded_agent and C = sample_collaborators and plan = allowed_plan
            and w = 0 and k = 1 and a = "SwapJupiter sol_mint usdc_mint ''7'' None None"
            and tr = "fst (execute_run sample_collaborators guarded_agent allowed_plan 0)"
            and out = "fst (snd (execute_run sample_collaborators guarded_agent allowed_plan 0))"
            and w' = "snd (snd (execute_run sample_collaborators guarded_agent allowed_plan 0))"]
  note absent = confirmation_gating
         [where ag = open_agent and a = "SwapJupiter sol_mint usdc_mint ''7'' None None" and w = 1
            and C = sample_collaborators]
  from declined h1 h2 have
    a: "exec_action sample_collaborators guarded_agent (SwapJupiter sol_mint usdc_mint ''7'' None None) 1
     = ([CallConfirm (SwapJupiter sol_mint usdc_mint ''7'' None None) (Inr False)], Inr None, 1)"
    and b: "exec_loop sample_collaborators guarded_agent 1 [SwapJupiter sol_mint usdc_mint ''7'' None None] 1 [''sig0'']
     = ([(1, CallConfirm (SwapJupiter sol_mint usdc_mint ''7'' None None) (Inr False))],
        Completed [''sig0''], 1)"
    by simp_all
  from whole h4 have c: "SwapJupiter sol_mint usdc_mint ''7'' None None = actions allowed_plan ! 1"
    by simp
  from absent h3 have
    d: "exec_action sample_collaborators open_agent (SwapJupiter sol_mint usdc_mint ''7'' None None) 1
     = dispatch sample_collaborators (SwapJupiter sol_mint usdc_mint ''7'' None None) 1"
    by blast
  from h1 h2 h3 a b h5 c d show ?thesis by (intro conjI)
qed

section \<open>Claims about the plan source\<close>

lemma slice0_eq:
  "slice0 xs e = (if 0 \<le> e then take (nat e) xs else take (length xs - nat (- e)) xs)"
proof (cases "0 \<le> e")
  case True
  then show ?thesis by (simp add: slice0_def Let_def min_def)
next
  case False
  then have "nat (max (int (length xs) + e) 0) = length xs - nat (- e)" by auto
  with False show ?thesis by (simp add: slice0_def Let_def)
qed

lemma array_or_noop_eq:
  "array_or_noop v
     = (case v of Some (JArr ys qs) \<Rightarrow> ys | _ \<Rightarrow> [JObj [(''type'', JStr ''noop'')]])"
  by (cases v rule: array_or_noop.cases) (simp_all add: noop_json_def)

text \<open>
  Claim C10, as amended. With an inference client that answers \<open>v\<close> and the cap
  \<open>k\<close> (\<^verbatim>\<open>maxActions\<close>, 3 when none is given), \<^verbatim>\<open>proposePlan\<close> returns a plan and
  throws nothing. If \<open>v\<close> is \<^verbatim>\<open>null\<close>, a boolean, a number or a string, the plan is
  the goal, the summary \<^verbatim>\<open>Invalid plan\<close> and the single action
  \<^verbatim>\<open>{ type: 'noop' }\<close>. If \<open>v\<close> is an object or an array, it is kept, and only its
  property \<^verbatim>\<open>actions\<close> is set: to a cut of the \<^verbatim>\<open>actions\<close> of \<open>v\<close> when that is
  an array, and to the same cut of the single no-op when it is not. The cut keeps the
  first \<open>k\<close> entries in their order when \<open>k\<close> is not negative (none when \<open>k\<close> is 0,
  so that the coerced no-op survives only for a cap of at least 1), and all but the
  last \<open>- k\<close> entries when \<open>k\<close> is negative.
\<close>

theorem proposePlan_normalizes:
  assumes "anthropic ag = Some createJson"
    and "k = (case m of None \<Rightarrow> 3 | Some j \<Rightarrow> j)"
    and "createJson g ctx k w = (Inr v, w')"
  shows "\<exists>plan. proposePlan ag g ctx m w = (Inr plan, w')
       \<and> ((\<forall>xs ps. v \<noteq> JArr xs ps) \<and> (\<forall>ps. v \<noteq> JObj ps) \<longrightarrow>
            plan = JObj [(''goal'', JStr g), (''summary'', JStr ''Invalid plan''),
                         (''actions'', JArr [JObj [(''type'', JStr ''noop'')]] [])])
       \<and> (\<forall>ps. v = JObj ps \<longrightarrow>
            plan = JObj (AList.update ''actions''
                     (JArr (let xs = (case map_of ps ''actions'' of
                                        Some (JArr ys qs) \<Rightarrow> ys
                                      | _ \<Rightarrow> [JObj [(''type'', JStr ''noop'')]])
                            in if 0 \<le> k then take (nat k) xs
                               else take (length xs - nat (- k)) xs) []) ps))
       \<and> (\<forall>xs ps. v = JArr xs ps \<longrightarrow>
            plan = JArr xs (AList.update ''actions''
                     (JArr (let xs = (case map_of ps ''actions'' of
                                        Some (JArr ys qs) \<Rightarrow> ys
                                      | _ \<Rightarrow> [JObj [(''type'', JStr ''noop'')]])
                            in if 0 \<le> k then take (nat k) xs
                               else take (length xs - nat (- k)) xs) []) ps))
       \<and> (\<forall>x. get_prop plan ''actions'' \<noteq> None
              \<and> (x \<noteq> ''actions'' \<and> (\<exists>ps. v = JObj ps) \<longrightarrow> get_prop plan x = get_prop v x))"
proof -
  have run: "proposePlan ag g ctx m w = (Inr (normalize g k v), w')"
    using assms by (simp add: proposePlan_def)
  have bad: "normalize g k v
      = JObj [(''goal'', JStr g), (''summary'', JStr ''Invalid plan''),
              (''actions'', JArr [JObj [(''type'', JStr ''noop'')]] [])]"
    if "\<forall>xs ps. v \<noteq> JArr xs ps" "\<forall>ps. v \<noteq> JObj ps"
    using that by (cases v) (simp_all add: normalize_def noop_plan_def noop_json_def)
  have obj: "normalize g k (JObj ps)
      = JObj (AList.update ''actions''
                     (JArr (let xs = (case map_of ps ''actions'' of
                                        Some (JArr ys qs) \<Rightarrow> ys
                                      | _ \<Rightarrow> [JObj [(''type'', JStr ''noop'')]])
                            in if 0 \<le> k then take (nat k) xs
                               else take (length xs - nat (- k)) xs) []) ps)" for ps
    by (simp add: normalize_def slice0_eq array_or_noop_eq Let_def)
  have arr: "normalize g k (JArr xs ps)
      = JArr xs (AList.update ''actions''
                     (JArr (let xs = (case map_of ps ''actions'' of
                                        Some (JArr ys qs) \<Rightarrow> ys
                                      | _ \<Rightarrow> [JObj [(''type'', JStr ''noop'')]])
                            in if 0 \<le> k then take (nat k) xs
                               else take (length xs - nat (- k)) xs) []) ps)" for xs ps
    by (simp add: normalize_def slice0_eq array_or_noop_eq Let_def)
  have has: "get_prop (normalize g k v) ''actions'' \<noteq> None"
    by (cases v) (simp_all add: normalize_def noop_plan_def update_Some_unfold)
  have keeps: "get_prop (normalize g k v) x = get_prop v x"
    if "x \<noteq> ''actions''" "\<exists>ps. v = JObj ps" for x
    using that by (auto simp: normalize_def update_conv')
  from run bad obj arr has keeps show ?thesis by (intro exI [of _ "normalize g k v"]) blast
qed

text \<open>
  The sample client answers a string for the goal \<^verbatim>\<open>text\<close>, an array for
  \<^verbatim>\<open>array\<close>, an object whose \<^verbatim>\<open>actions\<close> is a string for \<^verbatim>\<open>loose\<close>, and an
  object with five actions otherwise; the cap is 3, then 2.
\<close>

theorem proposePlan_normalizes_witness:
  "anthropic open_agent = Some sample_inference
 \<and> fst (proposePlan open_agent ''text'' None None 0)
     = Inr (JObj [(''goal'', JStr ''text''), (''summary'', JStr ''Invalid plan''),
                  (''actions'', JArr [JObj [(''type'', JStr ''noop'')]] [])])
 \<and> fst (proposePlan open_agent ''loose'' None None 0)
     = Inr (JObj [(''goal'', JStr ''loose''),
                  (''actions'', JArr [JObj [(''type'', JStr ''noop'')]] [])])
 \<and> fst (proposePlan open_agent ''five'' None (Some 2) 0)
     = Inr (JObj [(''goal'', JStr ''five''), (''actions'', JArr [JNum 1, JNum 2] [])])
 \<and> fst (proposePlan open_agent ''array'' None None 0)
     = Inr (JArr [JNum 1] [(''actions'', JArr [JObj [(''type'', JStr ''noop'')]] [])])"
proof -
  have h1: "anthropic open_agent = Some sample_inference" by (simp add: open_agent_def)
  have k3: "(3::int) = (case None of None \<Rightarrow> 3 | Some j \<Rightarrow> j)" by simp
  have k2: "(2::int) = (case Some 2 of None \<Rightarrow> 3 | Some j \<Rightarrow> j)" by simp
  have t: "sample_inference ''text'' None 3 0 = (Inr (JStr ''no plan''), 0)"
    by (simp add: sample_inference_def)
  have l: "sample_inference ''loose'' None 3 0
             = (Inr (JObj [(''goal'', JStr ''loose''), (''actions'', JStr ''none'')]), 0)"
    by (simp add: sample_inference_def)
  have f: "sample_inference ''five'' None 2 0
             = (Inr (JObj [(''goal'', JStr ''five''),
                  (''actions'', JArr [JNum 1, JNum 2, JNum 3, JNum 4, JNum 5] [])]), 0)"
    by (simp add: sample_inference_def)
  have a: "sample_inference ''array'' None 3 0 = (Inr (JArr [JNum 1] []), 0)"
    by (simp add: sample_inference_def)
  from proposePlan_normalizes [OF h1 k3 t]
  have x1: "fst (proposePlan open_agent ''text'' None None 0)
     = Inr (JObj [(''goal'', JStr ''text''), (''summary'', JStr ''Invalid plan''),
                  (''actions'', JArr [JObj [(''type'', JStr ''noop'')]] [])])"
    by auto
  from proposePlan_normalizes [OF h1 k3 l]
  have x2: "fst (proposePlan open_agent ''loose'' None None 0)
     = Inr (JObj [(''goal'', JStr ''loose''),
                  (''actions'', JArr [JObj [(''type'', JStr ''noop'')]] [])])"
    by auto
  from proposePlan_normalizes [OF h1 k2 f]
  have x3: "fst (proposePlan open_agent ''five'' None (Some 2) 0)
     = Inr (JObj [(''goal'', JStr ''five''), (''actions'', JArr [JNum 1, JNum 2] [])])"
    by auto
  from proposePlan_normalizes [OF h1 k3 a]
  have x4: "fst (proposePlan open_agent ''array'' None None 0)
     = Inr (JArr [JNum 1] [(''actions'', JArr [JObj [(''type'', JStr ''noop'')]] [])])"
    by auto
  from h1 x1 x2 x3 x4 show ?thesis by (intro conjI)
qed

text \<open>
  Claim C10 as stated fails. With a cap of 0, a reply whose \<^verbatim>\<open>actions\<close> is not a
  sequence gives a plan with no action at all, not a single no-op. A reply that is an
  array is not an object with a goal, yet it is not replaced by the no-op plan: it is
  returned with an \<^verbatim>\<open>actions\<close> property. With a cap of -1, five actions are cut
  to the first four.
\<close>

theorem proposePlan_normalizes_counterexample:
  "fst (proposePlan open_agent ''loose'' None (Some 0) 0)
     = Inr (JObj [(''goal'', JStr ''loose''), (''actions'', JArr [] [])])
 \<and> fst (proposePlan open_agent ''array'' None None 0)
     = Inr (JArr [JNum 1] [(''actions'', JArr [JObj [(''type'', JStr ''noop'')]] [])])
 \<and> fst (proposePlan open_agent ''five'' None (Some (- 1)) 0)
     = Inr (JObj [(''goal'', JStr ''five''),
                  (''actions'', JArr [JNum 1, JNum 2, JNum 3, JNum 4] [])])"
  by code_simp


end
